theory Spec2Isabelle
  imports Main
begin

section \<open>Values, records and snapshots\<close>

text \<open>
  The scalar values that a Gateway snapshot carries: null, booleans, integers and text.
  Python floats are left out of the snapshot values (no claim below inspects one).
\<close>

datatype pyval = PNone | PBool bool | PInt int | PStr string

text \<open>
  A value held in a tabular frame or in a record handed to the Gateway: a scalar, the
  pandas sentinel \<open>pd.NA\<close>, or the float \<open>nan\<close> that marks a missing entry of a float
  column (the one float value the model holds).
\<close>

datatype cell = Val pyval | NA | NaN

text \<open>
  The null-like sentinel values of a frame, in the words of the specification: the values
  that stand for a missing entry without being the explicit null \<open>None\<close>.
\<close>

fun null_like :: "cell \<Rightarrow> bool" where
  "null_like NA = True"
| "null_like NaN = True"
| "null_like (Val v) = False"

text \<open>
  Python dictionaries are association lists in insertion order, with distinct keys.
  A record maps column names to values; a snapshot maps column names to value sequences.
\<close>

type_synonym py_record = "(string \<times> cell) list"

type_synonym snapshot = "(string \<times> pyval list) list"

text \<open>A field of a selected record: a scalar, or a structure (a dict) such as an attachment.\<close>

datatype field = Scalar pyval | Struct "(string \<times> pyval) list"

datatype exn = GatewayError string | KeyError string | AttributeError string

text \<open>
  Python's \<open>==\<close> on scalars. \<open>bool\<close> is a subclass of \<open>int\<close>: \<open>True == 1\<close> and
  \<open>False == 0\<close> hold. Text and null are equal only to themselves.
\<close>

fun py_eq :: "pyval \<Rightarrow> pyval \<Rightarrow> bool" where
  "py_eq PNone PNone = True"
| "py_eq (PBool a) (PBool b) = (a = b)"
| "py_eq (PBool a) (PInt n) = ((if a then 1 else 0) = n)"
| "py_eq (PInt n) (PBool b) = (n = (if b then 1 else 0))"
| "py_eq (PInt m) (PInt n) = (m = n)"
| "py_eq (PStr s) (PStr t) = (s = t)"
| "py_eq _ _ = False"

definition py_ne :: "pyval \<Rightarrow> pyval \<Rightarrow> bool" where
  "py_ne a b = (\<not> py_eq a b)"

text \<open>\<open>type(v).__name__\<close>\<close>

fun type_name :: "pyval \<Rightarrow> string" where
  "type_name PNone = ''NoneType''"
| "type_name (PBool _) = ''bool''"
| "type_name (PInt _) = ''int''"
| "type_name (PStr _) = ''str''"

text \<open>Truthiness of a scalar and of a record field.\<close>

fun truthy :: "pyval \<Rightarrow> bool" where
  "truthy PNone = False"
| "truthy (PBool b) = b"
| "truthy (PInt n) = (n \<noteq> 0)"
| "truthy (PStr s) = (s \<noteq> [])"

fun field_truthy :: "field \<Rightarrow> bool" where
  "field_truthy (Scalar v) = truthy v"
| "field_truthy (Struct d) = (d \<noteq> [])"

text \<open>\<open>d[k] = v\<close> on a dictionary: overwrite in place, or append a new key.\<close>

fun dict_set :: "('k \<times> 'v) list \<Rightarrow> 'k \<Rightarrow> 'v \<Rightarrow> ('k \<times> 'v) list" where
  "dict_set [] k v = [(k, v)]"
| "dict_set ((k', v') # d) k v = (if k' = k then (k, v) # d else (k', v') # dict_set d k v)"

text \<open>A dictionary built from a sequence of items, later items overwriting earlier ones.\<close>

definition dict_of_items :: "('k \<times> 'v) list \<Rightarrow> ('k \<times> 'v) list" where
  "dict_of_items items = foldl (\<lambda>d (k, v). dict_set d k v) [] items"

section \<open>The Remote Table Gateway\<close>

text \<open>
  The Gateway is an external collaborator. It is a parameter of every operation: a
  deterministic machine over a state \<open>'s\<close> of its own, each call of which either raises
  or returns. The Service's requests are recorded in a trace.
\<close>

record 's gateway =
  gw_fetch_table :: "string \<Rightarrow> 's \<Rightarrow> (exn + snapshot) \<times> 's"
  gw_create :: "string \<Rightarrow> py_record list \<Rightarrow> 's \<Rightarrow> (exn + pyval list) \<times> 's"
  gw_update :: "string \<Rightarrow> py_record list \<Rightarrow> 's \<Rightarrow> (exn + unit) \<times> 's"
  gw_destroy :: "string \<Rightarrow> pyval list \<Rightarrow> 's \<Rightarrow> (exn + unit) \<times> 's"
  gw_fetch_selected_record :: "pyval \<Rightarrow> 's \<Rightarrow> (exn + (string \<times> field) list option) \<times> 's"

datatype event =
    Fetch string
  | Create string "py_record list"
  | Update string "py_record list"
  | Destroy string "pyval list"
  | FetchSelected pyval

text \<open>The world: the Gateway's state and the requests issued so far.\<close>

type_synonym 's world = "'s \<times> event list"

definition is_write :: "event \<Rightarrow> bool" where
  "is_write e = (case e of Fetch _ \<Rightarrow> False | FetchSelected _ \<Rightarrow> False | _ \<Rightarrow> True)"

text \<open>\<open>gapi.grist.fetch_table(table_name)\<close>\<close>

definition grist_fetch_table :: "'s gateway \<Rightarrow> string \<Rightarrow> 's world \<Rightarrow> (exn + snapshot) \<times> 's world" where
  "grist_fetch_table g t w =
     (case gw_fetch_table g t (fst w) of (r, s') \<Rightarrow> (r, (s', snd w @ [Fetch t])))"

text \<open>\<open>gapi.TableOperations(gapi.grist, table_name).create(records)\<close>\<close>

definition table_ops_create ::
  "'s gateway \<Rightarrow> string \<Rightarrow> py_record list \<Rightarrow> 's world \<Rightarrow> (exn + pyval list) \<times> 's world" where
  "table_ops_create g t rs w =
     (case gw_create g t rs (fst w) of (r, s') \<Rightarrow> (r, (s', snd w @ [Create t rs])))"

definition table_ops_update ::
  "'s gateway \<Rightarrow> string \<Rightarrow> py_record list \<Rightarrow> 's world \<Rightarrow> (exn + unit) \<times> 's world" where
  "table_ops_update g t rs w =
     (case gw_update g t rs (fst w) of (r, s') \<Rightarrow> (r, (s', snd w @ [Update t rs])))"

definition table_ops_destroy ::
  "'s gateway \<Rightarrow> string \<Rightarrow> pyval list \<Rightarrow> 's world \<Rightarrow> (exn + unit) \<times> 's world" where
  "table_ops_destroy g t ids w =
     (case gw_destroy g t ids (fst w) of (r, s') \<Rightarrow> (r, (s', snd w @ [Destroy t ids])))"

definition grist_fetch_selected_record ::
  "'s gateway \<Rightarrow> pyval \<Rightarrow> 's world \<Rightarrow> (exn + (string \<times> field) list option) \<times> 's world" where
  "grist_fetch_selected_record g rid w =
     (case gw_fetch_selected_record g rid (fst w) of
        (r, s') \<Rightarrow> (r, (s', snd w @ [FetchSelected rid])))"

section \<open>Table creation and record CRUD\<close>

text \<open>
  \<open>{col_name: "" if col_type == "Text" else 0 for col_name, col_type in columns.items()}\<close>
\<close>

definition dummy_record :: "(string \<times> string) list \<Rightarrow> py_record" where
  "dummy_record columns =
     map (\<lambda>(col_name, col_type).
            (col_name, Val (if col_type = ''Text'' then PStr '''' else PInt 0))) columns"

text \<open>
  \<open>create_table\<close>: insert a dummy record, destroy the first identifier returned when the
  reply is non-empty, return \<open>True\<close>; any exception gives \<open>False\<close>.
\<close>

definition create_table ::
  "'s gateway \<Rightarrow> string \<Rightarrow> (string \<times> string) list \<Rightarrow> 's world \<Rightarrow> bool \<times> 's world" where
  "create_table g table_name columns w =
     (case table_ops_create g table_name [dummy_record columns] w of
        (Inl e, w1) \<Rightarrow> (False, w1)
      | (Inr result, w1) \<Rightarrow>
          (if result \<noteq> [] then
             (case table_ops_destroy g table_name [hd result] w1 of
                (Inl e, w2) \<Rightarrow> (False, w2)
              | (Inr u, w2) \<Rightarrow> (True, w2))
           else (True, w1)))"

text \<open>The argument of \<open>add_data\<close>: a single record (a dict) or a list of records.\<close>

datatype records_arg = OneRecord py_record | RecordList "py_record list"

definition add_data ::
  "'s gateway \<Rightarrow> string \<Rightarrow> records_arg \<Rightarrow> 's world \<Rightarrow> pyval list option \<times> 's world" where
  "add_data g table_name records w =
     (let records' = (case records of RecordList l \<Rightarrow> l | OneRecord r \<Rightarrow> [r])
      in case table_ops_create g table_name records' w of
           (Inl e, w1) \<Rightarrow> (None, w1)
         | (Inr result, w1) \<Rightarrow> (Some result, w1))"

text \<open>The argument of \<open>delete_data\<close>: one row identifier or a list of them.\<close>

datatype row_ids_arg = OneId pyval | IdList "pyval list"

definition delete_data ::
  "'s gateway \<Rightarrow> string \<Rightarrow> row_ids_arg \<Rightarrow> 's world \<Rightarrow> bool \<times> 's world" where
  "delete_data g table_name row_ids w =
     (case table_ops_destroy g table_name
             (case row_ids of IdList l \<Rightarrow> l | OneId r \<Rightarrow> [r]) w of
        (Inl e, w1) \<Rightarrow> (False, w1)
      | (Inr u, w1) \<Rightarrow> (True, w1))"

definition bulk_update_records ::
  "'s gateway \<Rightarrow> string \<Rightarrow> py_record list \<Rightarrow> 's world \<Rightarrow> bool list \<times> 's world" where
  "bulk_update_records g table_name updates w =
     (case table_ops_update g table_name updates w of
        (Inl e, w1) \<Rightarrow> (replicate (length updates) False, w1)
      | (Inr u, w1) \<Rightarrow> (replicate (length updates) True, w1))"

section \<open>Tabular frames\<close>

text \<open>
  A pandas DataFrame: the length of its index and its columns in order, each with a label,
  the string of its dtype and its values. Every column of a DataFrame holds one value per
  index entry. The frame operations the Service calls (\<open>empty\<close>,
  \<open>dtypes\<close>, \<open>to_dict('records')\<close>) follow their documented behaviour.
\<close>

record frame =
  df_index :: nat
  df_columns :: "(string \<times> string \<times> cell list) list"

text \<open>\<open>df.empty\<close>: some axis has length 0.\<close>

definition df_empty :: "frame \<Rightarrow> bool" where
  "df_empty df = (df_index df = 0 \<or> df_columns df = [])"

definition pandas_type_map :: "(string \<times> string) list" where
  "pandas_type_map =
     [(''int64'', ''Numeric''), (''int32'', ''Numeric''), (''float64'', ''Numeric''),
      (''float32'', ''Numeric''), (''bool'', ''Bool''), (''datetime64[ns]'', ''Date''),
      (''object'', ''Text''), (''category'', ''Text'')]"

text \<open>\<open>type_map.get(key, 'Text')\<close>\<close>

definition type_map_get :: "(string \<times> string) list \<Rightarrow> string \<Rightarrow> string" where
  "type_map_get type_map key = (case map_of type_map key of Some ty \<Rightarrow> ty | None \<Rightarrow> ''Text'')"

text \<open>\<open>{col: type_map.get(str(dt), 'Text') for col, dt in df.dtypes.items()}\<close>\<close>

definition frame_cols :: "frame \<Rightarrow> (string \<times> string) list" where
  "frame_cols df =
     dict_of_items (map (\<lambda>(col, dt, vs). (col, type_map_get pandas_type_map dt)) (df_columns df))"

text \<open>
  Modelled from the spec: \<open>DataFrame.replace\<close> is a function of pandas, whose code
  is not part of the repository. It is the normalization step of section 4.1 of the
  specification, with the sentinel and the explicit null that the source's call names,
  \<open>df.replace({pd.NA: None})\<close>: a value that is the key \<open>pd.NA\<close> becomes \<open>None\<close>; a
  value that is not the key is kept, the \<open>nan\<close> of a float column included.
\<close>

definition replace_na :: "frame \<Rightarrow> frame" where
  "replace_na df =
     df\<lparr>df_columns :=
          map (\<lambda>(col, dt, vs). (col, dt, map (\<lambda>v. if v = NA then Val PNone else v) vs))
            (df_columns df)\<rparr>"

text \<open>
  Row \<open>i\<close> of a frame: the dictionary from column label to the frame's value at index
  entry \<open>i\<close>, a later column overwriting an earlier one of the same label.
\<close>

definition frame_row :: "frame \<Rightarrow> nat \<Rightarrow> py_record" where
  "frame_row df i =
     dict_of_items
       (map (\<lambda>(col, dt, vs). (col, vs ! i))
          (filter (\<lambda>(col, dt, vs). i < length vs) (df_columns df)))"

text \<open>
  Modelled from the spec: \<open>DataFrame.to_dict('records')\<close> is a function of pandas,
  whose code is not part of the repository. It is the row assembly of section 4.1 of the
  specification: one record per index entry, holding the values of that row. The Service
  applies it to the frame that \<open>replace\<close> returns, in which no \<open>pd.NA\<close> is left; what
  pandas makes of a \<open>pd.NA\<close> at this step is not relied upon.
\<close>

definition to_dict_records :: "frame \<Rightarrow> py_record list" where
  "to_dict_records df = map (frame_row df) [0..<df_index df]"

definition create_table_from_dataframe ::
  "'s gateway \<Rightarrow> string \<Rightarrow> frame \<Rightarrow> 's world \<Rightarrow> string option \<times> 's world" where
  "create_table_from_dataframe g table_name df w =
     (if df_empty df then (None, w)
      else
        (let cols = frame_cols df in
         case create_table g table_name cols w of
           (False, w1) \<Rightarrow> (None, w1)
         | (True, w1) \<Rightarrow>
             (let records = to_dict_records (replace_na df) in
              case add_data g table_name (RecordList records) w1 of
                (None, w2) \<Rightarrow> (None, w2)
              | (Some ids, w2) \<Rightarrow> (Some table_name, w2))))"

section \<open>Predicate delete\<close>

text \<open>
  The inner loop of \<open>bulk_delete_where\<close> over \<open>where.items()\<close> at row index \<open>i\<close>:
  the row stops matching at the first predicate column that is absent from the snapshot,
  too short for the index, or unequal (\<open>!=\<close>) to the predicate value.
\<close>

fun row_matches :: "snapshot \<Rightarrow> (string \<times> pyval) list \<Rightarrow> nat \<Rightarrow> bool" where
  "row_matches table_data [] i = True"
| "row_matches table_data ((col, val) # rest) i =
     (case map_of table_data col of
        Some vs \<Rightarrow>
          (if i < length vs
           then (if py_ne (vs ! i) val then False else row_matches table_data rest i)
           else False)
      | None \<Rightarrow> False)"

text \<open>The outer loop \<open>for i, row_id in enumerate(...)\<close>, from index \<open>i\<close> on.\<close>

fun collect_row_ids ::
  "snapshot \<Rightarrow> (string \<times> pyval) list \<Rightarrow> nat \<Rightarrow> pyval list \<Rightarrow> pyval list" where
  "collect_row_ids table_data wh i [] = []"
| "collect_row_ids table_data wh i (row_id # rest) =
     (if row_matches table_data wh i
      then row_id # collect_row_ids table_data wh (Suc i) rest
      else collect_row_ids table_data wh (Suc i) rest)"

text \<open>\<open>table_data.get('id', [])\<close>\<close>

definition id_column :: "snapshot \<Rightarrow> pyval list" where
  "id_column table_data = (case map_of table_data ''id'' of Some ids \<Rightarrow> ids | None \<Rightarrow> [])"

definition bulk_delete_where ::
  "'s gateway \<Rightarrow> string \<Rightarrow> (string \<times> pyval) list \<Rightarrow> 's world \<Rightarrow> bool \<times> 's world" where
  "bulk_delete_where g table_name wh w =
     (case grist_fetch_table g table_name w of
        (Inl e, w1) \<Rightarrow> (False, w1)
      | (Inr table_data, w1) \<Rightarrow>
          (let row_ids = collect_row_ids table_data wh 0 (id_column table_data) in
           if row_ids \<noteq> [] then delete_data g table_name (IdList row_ids) w1
           else (True, w1)))"

text \<open>
  For comparison with \<open>row_matches\<close>, the matching rule in the words of the specification:
  every predicate column exists in the snapshot, is present at the row index, and holds
  exactly the predicate value (the same kind of value and the same value).
\<close>

definition row_matches_exactly :: "snapshot \<Rightarrow> (string \<times> pyval) list \<Rightarrow> nat \<Rightarrow> bool" where
  "row_matches_exactly table_data wh i =
     list_all (\<lambda>(col, val).
        case map_of table_data col of
          Some vs \<Rightarrow> i < length vs \<and> vs ! i = val
        | None \<Rightarrow> False) wh"

section \<open>Table merge\<close>

definition system_col :: "string \<Rightarrow> bool" where
  "system_col col = (col = ''id'' \<or> col = ''manualSort'')"

definition merge_type_map :: "(string \<times> string) list" where
  "merge_type_map =
     [(''int'', ''Numeric''), (''float'', ''Numeric''), (''bool'', ''Bool''),
      (''str'', ''Text''), (''NoneType'', ''Text'')]"

text \<open>\<open>next((v for v in values if v is not None), None)\<close>\<close>

definition sample_value :: "pyval list \<Rightarrow> pyval" where
  "sample_value vs = (case find (\<lambda>v. v \<noteq> PNone) vs of Some v \<Rightarrow> v | None \<Rightarrow> PNone)"

definition infer_col_type :: "pyval list \<Rightarrow> string" where
  "infer_col_type vs = type_map_get merge_type_map (type_name (sample_value vs))"

text \<open>The schema that \<open>merge_tables\<close> derives from the first remaining source.\<close>

definition infer_columns :: "snapshot \<Rightarrow> (string \<times> string) list" where
  "infer_columns first_source_data =
     map (\<lambda>(col, vs). (col, infer_col_type vs))
       (filter (\<lambda>(col, vs). \<not> system_col col) first_source_data)"

text \<open>The record that \<open>merge_tables\<close> assembles for row index \<open>i\<close> of a source snapshot.\<close>

definition row_record :: "snapshot \<Rightarrow> nat \<Rightarrow> py_record" where
  "row_record src_data i =
     map (\<lambda>(col, vs). (col, Val (vs ! i)))
       (filter (\<lambda>(col, vs). \<not> system_col col \<and> i < length vs) src_data)"

definition snapshot_records :: "snapshot \<Rightarrow> py_record list" where
  "snapshot_records src_data = map (row_record src_data) [0..<length (id_column src_data)]"

text \<open>
  The Gateway's contract for a snapshot: every column holds one value per row, that is, as
  many values as the \<open>id\<close> column.
\<close>

definition snapshot_wf :: "snapshot \<Rightarrow> bool" where
  "snapshot_wf src_data =
     list_all (\<lambda>(col, vs). length vs = length (id_column src_data)) src_data"

text \<open>
  \<open>target if target else sources[0]\<close>: a target that is \<open>None\<close> or the empty string is
  falsy.
\<close>

definition target_given :: "string option \<Rightarrow> bool" where
  "target_given target = (case target of Some t \<Rightarrow> t \<noteq> [] | None \<Rightarrow> False)"

text \<open>
  The copy loop of \<open>merge_tables\<close>. The result of \<open>add_data\<close> is not inspected; an
  exception of \<open>fetch_table\<close> leaves the loop.
\<close>

fun copy_sources ::
  "'s gateway \<Rightarrow> string \<Rightarrow> string list \<Rightarrow> 's world \<Rightarrow> (exn + unit) \<times> 's world" where
  "copy_sources g tgt [] w = (Inr (), w)"
| "copy_sources g tgt (src # rest) w =
     (case grist_fetch_table g src w of
        (Inl e, w1) \<Rightarrow> (Inl e, w1)
      | (Inr src_data, w1) \<Rightarrow>
          (let records = snapshot_records src_data in
           copy_sources g tgt rest
             (if records \<noteq> [] then snd (add_data g tgt (RecordList records) w1) else w1)))"

definition merge_tables ::
  "'s gateway \<Rightarrow> string list \<Rightarrow> string option \<Rightarrow> bool \<Rightarrow> 's world \<Rightarrow> bool \<times> 's world" where
  "merge_tables g sources target create_new w =
     (if length sources < 1 then (False, w)
      else
        (let tgt = (if target_given target then the target else hd sources);
             srcs = (if target_given target then sources else tl sources)
         in case (if create_new \<and> srcs \<noteq> [] then
                    (case grist_fetch_table g (hd srcs) w of
                       (Inl e, w1) \<Rightarrow> (Inl e, w1)
                     | (Inr first_source_data, w1) \<Rightarrow>
                         (Inr (), snd (create_table g tgt (infer_columns first_source_data) w1)))
                  else (Inr (), w)) of
              (Inl e, w2) \<Rightarrow> (False, w2)
            | (Inr u, w2) \<Rightarrow>
                (case copy_sources g tgt srcs w2 of
                   (Inl e, w3) \<Rightarrow> (False, w3)
                 | (Inr u', w3) \<Rightarrow> (True, w3))))"

text \<open>
  Strict mode. Python sets are lists without repetition here, in the order of the first
  source's columns; no claim below depends on the order.
\<close>

definition user_columns :: "snapshot \<Rightarrow> string list" where
  "user_columns src_data = filter (\<lambda>col. \<not> system_col col) (map fst src_data)"

text \<open>The loop that intersects the column sets, with \<open>common_cols\<close> as accumulator.\<close>

fun common_columns ::
  "'s gateway \<Rightarrow> string list \<Rightarrow> string list option \<Rightarrow> 's world
     \<Rightarrow> (exn + string list option) \<times> 's world" where
  "common_columns g [] common_cols w = (Inr common_cols, w)"
| "common_columns g (src # rest) common_cols w =
     (case grist_fetch_table g src w of
        (Inl e, w1) \<Rightarrow> (Inl e, w1)
      | (Inr src_data, w1) \<Rightarrow>
          (let src_cols = user_columns src_data in
           common_columns g rest
             (case common_cols of
                None \<Rightarrow> Some src_cols
              | Some cc \<Rightarrow> Some (filter (\<lambda>col. col \<in> set src_cols) cc))
             w1))"

text \<open>\<open>first_source_data[col]\<close> and \<open>src_data[col]\<close> raise \<open>KeyError\<close> on an absent column.\<close>

fun strict_columns :: "snapshot \<Rightarrow> string list \<Rightarrow> exn + (string \<times> string) list" where
  "strict_columns first_source_data [] = Inr []"
| "strict_columns first_source_data (col # rest) =
     (case map_of first_source_data col of
        None \<Rightarrow> Inl (KeyError col)
      | Some vs \<Rightarrow>
          (case strict_columns first_source_data rest of
             Inl e \<Rightarrow> Inl e
           | Inr cols \<Rightarrow> Inr ((col, infer_col_type vs) # cols)))"

fun strict_row_record :: "snapshot \<Rightarrow> string list \<Rightarrow> nat \<Rightarrow> exn + py_record" where
  "strict_row_record src_data [] i = Inr []"
| "strict_row_record src_data (col # rest) i =
     (case map_of src_data col of
        None \<Rightarrow> Inl (KeyError col)
      | Some vs \<Rightarrow>
          (case strict_row_record src_data rest i of
             Inl e \<Rightarrow> Inl e
           | Inr record \<Rightarrow> Inr (if i < length vs then (col, Val (vs ! i)) # record else record)))"

fun strict_records :: "snapshot \<Rightarrow> string list \<Rightarrow> nat list \<Rightarrow> exn + py_record list" where
  "strict_records src_data common_cols [] = Inr []"
| "strict_records src_data common_cols (i # is) =
     (case strict_row_record src_data common_cols i of
        Inl e \<Rightarrow> Inl e
      | Inr record \<Rightarrow>
          (case strict_records src_data common_cols is of
             Inl e \<Rightarrow> Inl e
           | Inr records \<Rightarrow> Inr (record # records)))"

fun strict_copy_sources ::
  "'s gateway \<Rightarrow> string \<Rightarrow> string list \<Rightarrow> string list \<Rightarrow> 's world
     \<Rightarrow> (exn + unit) \<times> 's world" where
  "strict_copy_sources g tgt common_cols [] w = (Inr (), w)"
| "strict_copy_sources g tgt common_cols (src # rest) w =
     (case grist_fetch_table g src w of
        (Inl e, w1) \<Rightarrow> (Inl e, w1)
      | (Inr src_data, w1) \<Rightarrow>
          (case strict_records src_data common_cols [0..<length (id_column src_data)] of
             Inl e \<Rightarrow> (Inl e, w1)
           | Inr records \<Rightarrow>
               strict_copy_sources g tgt common_cols rest
                 (if records \<noteq> [] then snd (add_data g tgt (RecordList records) w1) else w1)))"

definition merge_tables_strict ::
  "'s gateway \<Rightarrow> string list \<Rightarrow> string option \<Rightarrow> bool \<Rightarrow> 's world \<Rightarrow> bool \<times> 's world" where
  "merge_tables_strict g sources target create_new w =
     (if length sources < 1 then (False, w)
      else
        (let tgt = (if target_given target then the target else hd sources);
             srcs = (if target_given target then sources else tl sources)
         in case common_columns g sources None w of
              (Inl e, w1) \<Rightarrow> (False, w1)
            | (Inr None, w1) \<Rightarrow> (False, w1)
            | (Inr (Some common_cols), w1) \<Rightarrow>
                (if common_cols = [] then (False, w1)
                 else
                   (case (if create_new then
                            (case grist_fetch_table g (hd sources) w1 of
                               (Inl e, w2) \<Rightarrow> (Inl e, w2)
                             | (Inr first_source_data, w2) \<Rightarrow>
                                 (case strict_columns first_source_data common_cols of
                                    Inl e \<Rightarrow> (Inl e, w2)
                                  | Inr cols \<Rightarrow> (Inr (), snd (create_table g tgt cols w2))))
                          else (Inr (), w1)) of
                      (Inl e, w3) \<Rightarrow> (False, w3)
                    | (Inr u, w3) \<Rightarrow>
                        (case strict_copy_sources g tgt common_cols srcs w3 of
                           (Inl e, w4) \<Rightarrow> (False, w4)
                         | (Inr u', w4) \<Rightarrow> (True, w4))))))"

section \<open>Attachment lookup\<close>

text \<open>
  \<open>get_attachment_url\<close>: the selected record is fetched by row identifier alone. A truthy
  field that is not a structure has no \<open>get\<close>; the \<open>AttributeError\<close> is caught and the
  result is \<open>None\<close>.
\<close>

definition get_attachment_url ::
  "'s gateway \<Rightarrow> string \<Rightarrow> string \<Rightarrow> pyval \<Rightarrow> 's world \<Rightarrow> pyval \<times> 's world" where
  "get_attachment_url g table_name column_name row_id w =
     (case grist_fetch_selected_record g row_id w of
        (Inl e, w1) \<Rightarrow> (PNone, w1)
      | (Inr None, w1) \<Rightarrow> (PNone, w1)
      | (Inr (Some record), w1) \<Rightarrow>
          (if record \<noteq> [] then
             (case map_of record column_name of
                None \<Rightarrow> (PNone, w1)
              | Some attachment \<Rightarrow>
                  (if field_truthy attachment then
                     (case attachment of
                        Struct d \<Rightarrow> (case map_of d ''url'' of Some u \<Rightarrow> u | None \<Rightarrow> PNone, w1)
                      | Scalar v \<Rightarrow> (PNone, w1))
                   else (PNone, w1)))
           else (PNone, w1)))"

section \<open>A Gateway to run the operations on\<close>

text \<open>
  A small deterministic Gateway for concrete runs. Its state is the next free row
  identifier. Two tables exist, \<open>S1\<close> and \<open>S2\<close>; \<open>create\<close> assigns consecutive
  identifiers in input order; \<open>update\<close> raises on the table \<open>Broken\<close>.
\<close>

definition snap_S1 :: snapshot where
  "snap_S1 =
     [(''id'', [PInt 1, PInt 2]), (''manualSort'', [PInt 1, PInt 2]),
      (''x'', [PInt 10, PInt 20]), (''y'', [PStr ''a'', PStr ''b''])]"

definition snap_S2 :: snapshot where
  "snap_S2 =
     [(''id'', [PInt 1]), (''manualSort'', [PInt 1]),
      (''x'', [PInt 30]), (''z'', [PBool True])]"

text \<open>Two tables that share no user column.\<close>

definition snap_Y :: snapshot where
  "snap_Y = [(''id'', [PInt 1]), (''manualSort'', [PInt 1]), (''y'', [PStr ''a''])]"

definition snap_Z :: snapshot where
  "snap_Z = [(''id'', [PInt 1]), (''manualSort'', [PInt 1]), (''z'', [PBool False])]"

definition demo_tables :: "(string \<times> snapshot) list" where
  "demo_tables = [(''S1'', snap_S1), (''S2'', snap_S2), (''Y'', snap_Y), (''Z'', snap_Z)]"

definition demo_gateway :: "nat gateway" where
  "demo_gateway =
     \<lparr> gw_fetch_table = (\<lambda>t n.
          (case map_of demo_tables t of
             Some snap \<Rightarrow> Inr snap
           | None \<Rightarrow> Inl (GatewayError ''no such table''), n)),
       gw_create = (\<lambda>t rs n.
          (Inr (map (\<lambda>k. PInt (int (n + k))) [0..<length rs]), n + length rs)),
       gw_update = (\<lambda>t rs n.
          (if t = ''Broken'' then Inl (GatewayError ''update failed'') else Inr (), n)),
       gw_destroy = (\<lambda>t ids n. (Inr (), n)),
       gw_fetch_selected_record = (\<lambda>rid n.
          (if rid = PInt 1
           then Inr (Some [(''Name'', Scalar (PStr ''a'')),
                           (''File'', Struct [(''url'', PStr ''http://f/1'')])])
           else Inr None, n)) \<rparr>"

text \<open>A frame with two rows, each holding one \<open>pd.NA\<close>.\<close>

definition demo_frame :: frame where
  "demo_frame =
     \<lparr>df_index = 2,
      df_columns = [(''a'', ''Int64'', [Val (PInt 1), NA]),
                    (''b'', ''object'', [NA, Val (PStr ''x'')])]\<rparr>"

text \<open>A frame with a nullable integer column holding \<open>pd.NA\<close> and a float column holding \<open>nan\<close>.\<close>

definition nan_frame :: frame where
  "nan_frame =
     \<lparr>df_index = 1,
      df_columns = [(''a'', ''Int64'', [NA]), (''c'', ''float64'', [NaN])]\<rparr>"

section \<open>Properties of table creation and record CRUD\<close>

text \<open>
  C6: \<open>add_data\<close> called with a single record gives the same result, over the same
  Gateway and from the same world, as \<open>add_data\<close> called with the one-element list holding
  that record; and when the Gateway's \<open>create\<close> answers with one identifier per record,
  a successful call returns exactly one identifier.
\<close>

theorem add_data_single_eq_singleton:
  "add_data g t (OneRecord r) w = add_data g t (RecordList [r]) w \<and>
   ((\<forall>ids s'. gw_create g t [r] (fst w) = (Inr ids, s') \<longrightarrow> length ids = length [r]) \<longrightarrow>
    (\<forall>ids w'. add_data g t (OneRecord r) w = (Some ids, w') \<longrightarrow> length ids = 1))"
  by (auto simp: add_data_def table_ops_create_def Let_def split: prod.splits sum.splits)

theorem add_data_single_eq_singleton_witness:
  "add_data demo_gateway ''S1'' (OneRecord [(''x'', Val (PInt 5))]) (7, []) =
     add_data demo_gateway ''S1'' (RecordList [[(''x'', Val (PInt 5))]]) (7, []) \<and>
   add_data demo_gateway ''S1'' (OneRecord [(''x'', Val (PInt 5))]) (7, []) =
     (Some [PInt 7], (8, [Create ''S1'' [[(''x'', Val (PInt 5))]]]))"
  using add_data_single_eq_singleton [of demo_gateway "''S1''" "[(''x'', Val (PInt 5))]" "(7, [])"]
  by (simp add: add_data_def table_ops_create_def demo_gateway_def)

text \<open>
  C1: when the Gateway's \<open>create\<close> returns an identifier for the throwaway record,
  \<open>create_table\<close> returns \<open>True\<close> exactly when it has issued one \<open>create\<close> of the one
  dummy record, then one \<open>destroy\<close> of exactly the identifier returned for it, and both
  calls succeeded; these two requests are all it sends.
\<close>

theorem create_table_inserts_then_deletes:
  assumes "\<forall>ids s1. gw_create g t [dummy_record columns] s = (Inr ids, s1) \<longrightarrow> ids \<noteq> []"
  shows "create_table g t columns (s, tr) = (True, w') \<longleftrightarrow>
         (\<exists>ids s1 s2. gw_create g t [dummy_record columns] s = (Inr ids, s1) \<and>
                      gw_destroy g t [hd ids] s1 = (Inr (), s2) \<and>
                      w' = (s2, tr @ [Create t [dummy_record columns], Destroy t [hd ids]]))"
  using assms
  by (auto simp: create_table_def table_ops_create_def table_ops_destroy_def
           split: prod.splits sum.splits if_splits)

theorem create_table_inserts_then_deletes_witness:
  "create_table demo_gateway ''T'' [(''Name'', ''Text''), (''Age'', ''Numeric'')] (5, []) =
     (True, 6, [Create ''T'' [[(''Name'', Val (PStr '''')), (''Age'', Val (PInt 0))]],
                Destroy ''T'' [PInt 5]])"
  using create_table_inserts_then_deletes
    [of demo_gateway "''T''" "[(''Name'', ''Text''), (''Age'', ''Numeric'')]" 5 "[]"
        "(6, [Create ''T'' [[(''Name'', Val (PStr '''')), (''Age'', Val (PInt 0))]],
              Destroy ''T'' [PInt 5]])"]
  by (simp add: demo_gateway_def dummy_record_def)

text \<open>
  C5: \<open>bulk_update_records\<close> issues one Gateway \<open>update\<close> with the whole batch and
  returns one boolean per update, all \<open>True\<close> when that call returns and all \<open>False\<close>
  when it raises.
\<close>

theorem bulk_update_all_or_nothing:
  "bulk_update_records g t updates (s, tr) =
     (replicate (length updates) (\<not> isl (fst (gw_update g t updates s))),
      snd (gw_update g t updates s), tr @ [Update t updates])"
  by (auto simp: bulk_update_records_def table_ops_update_def split: prod.splits sum.splits)

theorem bulk_update_all_or_nothing_witness:
  "bulk_update_records demo_gateway ''S1''
      [[(''id'', Val (PInt 1)), (''x'', Val (PInt 5))], [(''id'', Val (PInt 2))]] (0, [])
     = ([True, True], 0,
        [Update ''S1'' [[(''id'', Val (PInt 1)), (''x'', Val (PInt 5))], [(''id'', Val (PInt 2))]]]) \<and>
   bulk_update_records demo_gateway ''Broken''
      [[(''id'', Val (PInt 1)), (''x'', Val (PInt 5))], [(''id'', Val (PInt 2))]] (0, [])
     = ([False, False], 0,
        [Update ''Broken'' [[(''id'', Val (PInt 1)), (''x'', Val (PInt 5))], [(''id'', Val (PInt 2))]]])"
  using bulk_update_all_or_nothing [of demo_gateway "''S1''"
      "[[(''id'', Val (PInt 1)), (''x'', Val (PInt 5))], [(''id'', Val (PInt 2))]]" 0 "[]"]
    bulk_update_all_or_nothing [of demo_gateway "''Broken''"
      "[[(''id'', Val (PInt 1)), (''x'', Val (PInt 5))], [(''id'', Val (PInt 2))]]" 0 "[]"]
  by (simp add: demo_gateway_def)

text \<open>How the two building blocks extend the world; used by the composite operations.\<close>

lemma add_data_world:
  "snd (add_data g t (RecordList rs) (s, tr)) = (snd (gw_create g t rs s), tr @ [Create t rs])"
  by (simp add: add_data_def table_ops_create_def split: prod.splits sum.splits)

lemma create_table_trace_append:
  "snd (create_table g t cols (s, tr)) =
     (fst (snd (create_table g t cols (s, []))), tr @ snd (snd (create_table g t cols (s, []))))"
  by (simp add: create_table_def table_ops_create_def table_ops_destroy_def
        split: prod.splits sum.splits)

lemma create_table_result_any_trace:
  "fst (create_table g t cols (s, tr)) = fst (create_table g t cols (s, []))"
  by (simp add: create_table_def table_ops_create_def table_ops_destroy_def
        split: prod.splits sum.splits)

lemma create_table_events:
  assumes "e \<in> set (snd (snd (create_table g t cols (s, []))))"
  shows "e = Create t [dummy_record cols] \<or>
         (\<exists>ids s1. gw_create g t [dummy_record cols] s = (Inr ids, s1) \<and> ids \<noteq> [] \<and>
                    e = Destroy t [hd ids])"
  using assms
  by (auto simp: create_table_def table_ops_create_def table_ops_destroy_def
        split: prod.splits sum.splits if_splits)

lemma create_table_creates:
  assumes "Create t' rs \<in> set (snd (snd (create_table g t cols (s, []))))"
  shows "rs = [dummy_record cols]"
  using create_table_events [OF assms] by auto

lemma dummy_record_no_na: "(col, v) \<in> set (dummy_record cols) \<Longrightarrow> v \<noteq> NA"
  by (auto simp: dummy_record_def)

section \<open>Properties of frame import\<close>

text \<open>
  C7: on an empty frame \<open>create_table_from_dataframe\<close> returns \<open>None\<close> and leaves the
  world as it was: the Gateway's state is unchanged and no request is added to the trace.
\<close>

theorem create_table_from_empty_frame:
  "df_empty df \<Longrightarrow> create_table_from_dataframe g t df w = (None, w)"
  by (simp add: create_table_from_dataframe_def)

theorem create_table_from_empty_frame_witness:
  "df_empty \<lparr>df_index = 0, df_columns = [(''a'', ''int64'', [])]\<rparr> \<and>
   create_table_from_dataframe demo_gateway ''T''
     \<lparr>df_index = 0, df_columns = [(''a'', ''int64'', [])]\<rparr> (3, []) = (None, (3, []))"
  using create_table_from_empty_frame
    [of "\<lparr>df_index = 0, df_columns = [(''a'', ''int64'', [])]\<rparr>" demo_gateway "''T''" "(3, [])"]
  by (simp add: df_empty_def)

lemma dict_set_map_values:
  "dict_set (map (\<lambda>(k, v). (k, f v)) d) k (f v) = map (\<lambda>(k, v). (k, f v)) (dict_set d k v)"
  by (induction d) auto

lemma dict_of_items_map_values_aux:
  "foldl (\<lambda>d (k, v). dict_set d k v) (map (\<lambda>(k, v). (k, f v)) d0) (map (\<lambda>(k, v). (k, f v)) items) =
   map (\<lambda>(k, v). (k, f v)) (foldl (\<lambda>d (k, v). dict_set d k v) d0 items)"
proof (induction items arbitrary: d0)
  case Nil
  then show ?case by simp
next
  case (Cons item items)
  obtain k v where item: "item = (k, v)" by (cases item)
  show ?case
    using Cons.IH [of "dict_set d0 k v"] by (simp add: item dict_set_map_values)
qed

lemma dict_of_items_map_values:
  "dict_of_items (map (\<lambda>(k, v). (k, f v)) items) = map (\<lambda>(k, v). (k, f v)) (dict_of_items items)"
  using dict_of_items_map_values_aux [of f "[]" items] by (simp add: dict_of_items_def)

lemma frame_row_replace_na:
  "frame_row (replace_na df) i =
     map (\<lambda>(col, v). (col, if v = NA then Val PNone else v)) (frame_row df i)"
proof -
  let ?f = "\<lambda>v. if v = NA then Val PNone else v"
  let ?F = "\<lambda>(k, v). (k, ?f v)"
  let ?H = "\<lambda>(col :: string, dt :: string, vs :: cell list). (col, vs ! i)"
  let ?P = "\<lambda>(col :: string, dt :: string, vs :: cell list). i < length vs"
  have step: "map ?H (filter ?P (map (\<lambda>(col, dt, vs). (col, dt, map ?f vs)) cols)) =
              map ?F (map ?H (filter ?P cols))" for cols
    by (induction cols) auto
  have "frame_row (replace_na df) i =
          dict_of_items (map ?H (filter ?P (map (\<lambda>(col, dt, vs). (col, dt, map ?f vs)) (df_columns df))))"
    by (simp add: frame_row_def replace_na_def)
  also have "\<dots> = dict_of_items (map ?F (map ?H (filter ?P (df_columns df))))"
    by (simp only: step)
  also have "\<dots> = map ?F (dict_of_items (map ?H (filter ?P (df_columns df))))"
    by (rule dict_of_items_map_values)
  also have "\<dots> = map ?F (frame_row df i)"
    by (simp only: frame_row_def)
  finally show ?thesis .
qed

text \<open>
  C8, as the code has it: in the records that \<open>create_table_from_dataframe\<close> assembles,
  every \<open>pd.NA\<close> of the frame has become the explicit null \<open>None\<close> and every scalar is
  unchanged; no record holds \<open>pd.NA\<close>. These are the records sent: on a non-empty frame
  the requests are those of \<open>create_table\<close>, then, when it succeeded, one \<open>create\<close> of
  the normalized records, and no \<open>create\<close> request of the operation carries \<open>pd.NA\<close>.
  Nothing is promised for a null-like value other than \<open>pd.NA\<close>.
\<close>

theorem create_table_from_dataframe_normalizes_na:
  "(\<forall>i. list_all2 (\<lambda>(col, v) (col', v').
                     col = col' \<and> (v' = NA \<longrightarrow> v = Val PNone) \<and> (\<forall>x. v' = Val x \<longrightarrow> v = Val x))
          (frame_row (replace_na df) i) (frame_row df i)) \<and>
   (\<forall>record \<in> set (to_dict_records (replace_na df)). \<forall>(col, v) \<in> set record. v \<noteq> NA) \<and>
   snd (snd (create_table_from_dataframe g t df (s, tr))) =
     tr @ (if df_empty df then []
           else snd (snd (create_table g t (frame_cols df) (s, []))) @
                (if fst (create_table g t (frame_cols df) (s, []))
                 then [Create t (to_dict_records (replace_na df))] else [])) \<and>
   (\<forall>t' rs. Create t' rs \<in> set (drop (length tr) (snd (snd (create_table_from_dataframe g t df (s, tr)))))
      \<longrightarrow> (\<forall>record \<in> set rs. \<forall>(col, v) \<in> set record. v \<noteq> NA))"
proof -
  have rel: "list_all2 (\<lambda>(col, v) (col', v').
                     col = col' \<and> (v' = NA \<longrightarrow> v = Val PNone) \<and> (\<forall>x. v' = Val x \<longrightarrow> v = Val x))
          (map (\<lambda>(col, v). (col, if v = NA then Val PNone else v)) row) row"
    for row :: py_record
    by (induction row) auto
  have rows: "\<forall>i. list_all2 (\<lambda>(col, v) (col', v').
                     col = col' \<and> (v' = NA \<longrightarrow> v = Val PNone) \<and> (\<forall>x. v' = Val x \<longrightarrow> v = Val x))
          (frame_row (replace_na df) i) (frame_row df i)"
    using rel by (simp only: frame_row_replace_na) blast
  have clean: "\<forall>record \<in> set (to_dict_records (replace_na df)). \<forall>(col, v) \<in> set record. v \<noteq> NA"
  proof -
    have "df_index (replace_na df) = df_index df" by (simp add: replace_na_def)
    then have "to_dict_records (replace_na df) =
        map (\<lambda>i. map (\<lambda>(col, v). (col, if v = NA then Val PNone else v)) (frame_row df i))
          [0..<df_index df]"
      by (simp add: to_dict_records_def frame_row_replace_na)
    then show ?thesis by (auto split: if_splits)
  qed
  let ?ct = "create_table g t (frame_cols df) (s, [])"
  let ?evs = "if df_empty df then []
           else snd (snd ?ct) @
                (if fst ?ct then [Create t (to_dict_records (replace_na df))] else [])"
  have trace: "snd (snd (create_table_from_dataframe g t df (s, tr))) = tr @ ?evs"
  proof (cases "df_empty df")
    case True
    then show ?thesis by (simp add: create_table_from_dataframe_def)
  next
    case False
    obtain ok w1 where ct: "create_table g t (frame_cols df) (s, tr) = (ok, w1)"
      by (cases "create_table g t (frame_cols df) (s, tr)")
    have ok: "ok = fst ?ct"
      using ct create_table_result_any_trace [of g t "frame_cols df" s tr] by simp
    have w1: "w1 = (fst (snd ?ct), tr @ snd (snd ?ct))"
      using ct create_table_trace_append [of g t "frame_cols df" s tr] by simp
    show ?thesis
    proof (cases ok)
      case True
      then show ?thesis
        using False ct ok w1
          add_data_world [of g t "to_dict_records (replace_na df)" "fst (snd ?ct)" "tr @ snd (snd ?ct)"]
        by (auto simp: create_table_from_dataframe_def Let_def split: prod.splits option.splits)
    next
      case False
      then show ?thesis
        using \<open>\<not> df_empty df\<close> ct ok w1
        by (auto simp: create_table_from_dataframe_def Let_def)
    qed
  qed
  have sent: "\<forall>t' rs. Create t' rs \<in> set (drop (length tr) (snd (snd (create_table_from_dataframe g t df (s, tr)))))
      \<longrightarrow> (\<forall>record \<in> set rs. \<forall>(col, v) \<in> set record. v \<noteq> NA)"
  proof (intro allI impI)
    fix t' rs
    assume "Create t' rs \<in> set (drop (length tr) (snd (snd (create_table_from_dataframe g t df (s, tr)))))"
    then have "Create t' rs \<in> set ?evs" unfolding trace by simp
    then consider "Create t' rs \<in> set (snd (snd ?ct))" | "rs = to_dict_records (replace_na df)"
      by (auto split: if_splits)
    then show "\<forall>record \<in> set rs. \<forall>(col, v) \<in> set record. v \<noteq> NA"
    proof cases
      case 1
      from create_table_creates [OF 1] show ?thesis
        by (auto dest: dummy_record_no_na)
    next
      case 2
      with clean show ?thesis by simp
    qed
  qed
  from rows clean trace sent show ?thesis by blast
qed

theorem create_table_from_dataframe_normalizes_na_witness:
  "frame_row demo_frame 0 = [(''a'', Val (PInt 1)), (''b'', NA)] \<and>
   frame_row (replace_na demo_frame) 0 = [(''a'', Val (PInt 1)), (''b'', Val PNone)] \<and>
   create_table_from_dataframe demo_gateway ''T'' demo_frame (10, []) =
     (Some ''T'', 13,
      [Create ''T'' [[(''a'', Val (PStr '''')), (''b'', Val (PStr ''''))]],
       Destroy ''T'' [PInt 10],
       Create ''T'' [[(''a'', Val (PInt 1)), (''b'', Val PNone)],
                    [(''a'', Val PNone), (''b'', Val (PStr ''x''))]]])"
proof -
  have row0: "frame_row demo_frame 0 = [(''a'', Val (PInt 1)), (''b'', NA)]"
    by (simp add: frame_row_def demo_frame_def dict_of_items_def)
  have row0': "frame_row (replace_na demo_frame) 0 = [(''a'', Val (PInt 1)), (''b'', Val PNone)]"
    by (simp add: frame_row_def replace_na_def demo_frame_def dict_of_items_def)
  have recs: "to_dict_records (replace_na demo_frame) =
     [[(''a'', Val (PInt 1)), (''b'', Val PNone)], [(''a'', Val PNone), (''b'', Val (PStr ''x''))]]"
    by (simp add: to_dict_records_def frame_row_def replace_na_def demo_frame_def
          dict_of_items_def upt_rec)
  have cols: "frame_cols demo_frame = [(''a'', ''Text''), (''b'', ''Text'')]"
    by (simp add: frame_cols_def demo_frame_def dict_of_items_def type_map_get_def
          pandas_type_map_def)
  have ne: "\<not> df_empty demo_frame"
    by (simp add: df_empty_def demo_frame_def)
  have ct: "create_table demo_gateway ''T'' [(''a'', ''Text''), (''b'', ''Text'')] (10, []) =
              (True, 11, [Create ''T'' [[(''a'', Val (PStr '''')), (''b'', Val (PStr ''''))]],
                          Destroy ''T'' [PInt 10]])"
    by (simp add: create_table_def table_ops_create_def table_ops_destroy_def dummy_record_def
          demo_gateway_def)
  from create_table_from_dataframe_normalizes_na [of demo_frame demo_gateway "''T''" 10 "[]"]
  have tr: "snd (snd (create_table_from_dataframe demo_gateway ''T'' demo_frame (10, []))) =
      [Create ''T'' [[(''a'', Val (PStr '''')), (''b'', Val (PStr ''''))]],
       Destroy ''T'' [PInt 10],
       Create ''T'' [[(''a'', Val (PInt 1)), (''b'', Val PNone)],
                    [(''a'', Val PNone), (''b'', Val (PStr ''x''))]]]"
    by (simp add: recs cols ne ct)
  have ad: "add_data demo_gateway ''T''
              (RecordList [[(''a'', Val (PInt 1)), (''b'', Val PNone)],
                           [(''a'', Val PNone), (''b'', Val (PStr ''x''))]]) (11, evs) =
            (Some [PInt 11, PInt 12], 13,
             evs @ [Create ''T'' [[(''a'', Val (PInt 1)), (''b'', Val PNone)],
                                 [(''a'', Val PNone), (''b'', Val (PStr ''x''))]]])" for evs
    by (simp add: add_data_def table_ops_create_def demo_gateway_def upt_rec)
  have res: "fst (create_table_from_dataframe demo_gateway ''T'' demo_frame (10, [])) = Some ''T''"
    and st: "fst (snd (create_table_from_dataframe demo_gateway ''T'' demo_frame (10, []))) = 13"
    by (simp_all add: create_table_from_dataframe_def ne cols ct recs ad)
  from row0 row0' tr res st show ?thesis
    by (cases "create_table_from_dataframe demo_gateway ''T'' demo_frame (10, [])") simp
qed

text \<open>
  C8 as stated fails: the float column \<open>c\<close> of \<open>nan_frame\<close> holds \<open>nan\<close>, a null-like
  sentinel that is not the key \<open>pd.NA\<close> of the call; the record sent to the Gateway still
  holds \<open>nan\<close>, not the explicit null, while the \<open>pd.NA\<close> of column \<open>a\<close> has become
  \<open>None\<close>.
\<close>

theorem create_table_from_dataframe_nan_counterexample:
  "null_like NaN \<and> NaN \<noteq> Val PNone \<and>
   frame_row nan_frame 0 = [(''a'', NA), (''c'', NaN)] \<and>
   create_table_from_dataframe demo_gateway ''T'' nan_frame (10, []) =
     (Some ''T'', 12,
      [Create ''T'' [[(''a'', Val (PStr '''')), (''c'', Val (PInt 0))]],
       Destroy ''T'' [PInt 10],
       Create ''T'' [[(''a'', Val PNone), (''c'', NaN)]]])"
proof -
  have row0: "frame_row nan_frame 0 = [(''a'', NA), (''c'', NaN)]"
    by (simp add: frame_row_def nan_frame_def dict_of_items_def)
  have recs: "to_dict_records (replace_na nan_frame) = [[(''a'', Val PNone), (''c'', NaN)]]"
    by (simp add: to_dict_records_def frame_row_def replace_na_def nan_frame_def
          dict_of_items_def)
  have cols: "frame_cols nan_frame = [(''a'', ''Text''), (''c'', ''Numeric'')]"
    by (simp add: frame_cols_def nan_frame_def dict_of_items_def type_map_get_def
          pandas_type_map_def)
  have ne: "\<not> df_empty nan_frame"
    by (simp add: df_empty_def nan_frame_def)
  have ct: "create_table demo_gateway ''T'' [(''a'', ''Text''), (''c'', ''Numeric'')] (10, []) =
              (True, 11, [Create ''T'' [[(''a'', Val (PStr '''')), (''c'', Val (PInt 0))]],
                          Destroy ''T'' [PInt 10]])"
    by (simp add: create_table_def table_ops_create_def table_ops_destroy_def dummy_record_def
          demo_gateway_def)
  have ad: "add_data demo_gateway ''T'' (RecordList [[(''a'', Val PNone), (''c'', NaN)]]) (11, evs) =
            (Some [PInt 11], 12, evs @ [Create ''T'' [[(''a'', Val PNone), (''c'', NaN)]]])" for evs
    by (simp add: add_data_def table_ops_create_def demo_gateway_def)
  have "create_table_from_dataframe demo_gateway ''T'' nan_frame (10, []) =
     (Some ''T'', 12,
      [Create ''T'' [[(''a'', Val (PStr '''')), (''c'', Val (PInt 0))]],
       Destroy ''T'' [PInt 10],
       Create ''T'' [[(''a'', Val PNone), (''c'', NaN)]]])"
    by (simp add: create_table_from_dataframe_def ne cols ct recs ad)
  with row0 show ?thesis by simp
qed

section \<open>Properties of predicate delete\<close>

lemma row_matches_iff:
  "row_matches td wh i \<longleftrightarrow>
     (\<forall>(col, val) \<in> set wh. \<exists>vs. map_of td col = Some vs \<and> i < length vs \<and> py_eq (vs ! i) val)"
proof (induction td wh i rule: row_matches.induct)
  case (1 table_data i)
  then show ?case by simp
next
  case (2 table_data col val rest i)
  show ?case
  proof (cases "map_of table_data col")
    case None
    then show ?thesis by simp
  next
    case (Some vs)
    then show ?thesis using 2 by (simp add: py_ne_def)
  qed
qed

lemma collect_row_ids_nth:
  "collect_row_ids td wh k ids =
     map (\<lambda>i. ids ! (i - k)) (filter (row_matches td wh) [k..<k + length ids])"
proof (induction ids arbitrary: k)
  case Nil
  then show ?case by simp
next
  case (Cons r rest)
  have shift: "map (\<lambda>i. (r # rest) ! (i - k)) (filter (row_matches td wh) [Suc k..<Suc k + length rest])
             = map (\<lambda>i. rest ! (i - Suc k)) (filter (row_matches td wh) [Suc k..<Suc k + length rest])"
  proof (rule map_cong [OF refl])
    fix i assume "i \<in> set (filter (row_matches td wh) [Suc k..<Suc k + length rest])"
    then have "i \<in> set [Suc k..<Suc k + length rest]" by simp
    then have "Suc k \<le> i" unfolding set_upt by simp
    then have "i - k = Suc (i - Suc k)" by arith
    then show "(r # rest) ! (i - k) = rest ! (i - Suc k)" by simp
  qed
  have "k < Suc k + length rest" by simp
  from upt_conv_Cons [OF this]
  have "[k..<Suc k + length rest] = k # [Suc k..<Suc k + length rest]" .
  moreover have "k + length (r # rest) = Suc k + length rest" by simp
  ultimately have upt: "[k..<k + length (r # rest)] = k # [Suc k..<Suc k + length rest]"
    by (simp only:)
  show ?case
    unfolding upt using Cons.IH [of "Suc k"] shift by simp
qed

lemma collect_row_ids_no_predicate: "collect_row_ids td [] k ids = ids"
  by (induction ids arbitrary: k) auto

text \<open>
  C2, as the code has it: once the snapshot is fetched, a row matches if and only if every
  predicate column exists in the snapshot, has a value at the row's index, and that value
  is equal to the predicate value under Python's \<open>==\<close> (\<open>py_eq\<close>: a boolean equals the
  integer 1 or 0, text and null equal only themselves); the identifiers of the matching
  rows are collected in the order of the \<open>id\<close> column; when none matches the operation
  returns \<open>True\<close> after the fetch alone, and otherwise sends one \<open>destroy\<close> with the
  collected identifiers.
\<close>

theorem bulk_delete_where_matching:
  assumes "gw_fetch_table g t s = (Inr table_data, s1)"
  shows "(\<forall>i. row_matches table_data wh i \<longleftrightarrow>
            (\<forall>(col, val) \<in> set wh.
               \<exists>vs. map_of table_data col = Some vs \<and> i < length vs \<and> py_eq (vs ! i) val)) \<and>
         collect_row_ids table_data wh 0 (id_column table_data) =
           map (\<lambda>i. id_column table_data ! i)
             (filter (row_matches table_data wh) [0..<length (id_column table_data)]) \<and>
         bulk_delete_where g t wh (s, tr) =
           (if collect_row_ids table_data wh 0 (id_column table_data) = []
            then (True, s1, tr @ [Fetch t])
            else (\<not> isl (fst (gw_destroy g t (collect_row_ids table_data wh 0 (id_column table_data)) s1)),
                  snd (gw_destroy g t (collect_row_ids table_data wh 0 (id_column table_data)) s1),
                  tr @ [Fetch t, Destroy t (collect_row_ids table_data wh 0 (id_column table_data))]))"
proof (intro conjI)
  show "\<forall>i. row_matches table_data wh i \<longleftrightarrow>
            (\<forall>(col, val) \<in> set wh.
               \<exists>vs. map_of table_data col = Some vs \<and> i < length vs \<and> py_eq (vs ! i) val)"
    using row_matches_iff by blast
  show "collect_row_ids table_data wh 0 (id_column table_data) =
           map (\<lambda>i. id_column table_data ! i)
             (filter (row_matches table_data wh) [0..<length (id_column table_data)])"
    using collect_row_ids_nth [of table_data wh 0 "id_column table_data"] by simp
  show "bulk_delete_where g t wh (s, tr) =
           (if collect_row_ids table_data wh 0 (id_column table_data) = []
            then (True, s1, tr @ [Fetch t])
            else (\<not> isl (fst (gw_destroy g t (collect_row_ids table_data wh 0 (id_column table_data)) s1)),
                  snd (gw_destroy g t (collect_row_ids table_data wh 0 (id_column table_data)) s1),
                  tr @ [Fetch t, Destroy t (collect_row_ids table_data wh 0 (id_column table_data))]))"
    using assms
    by (auto simp: bulk_delete_where_def grist_fetch_table_def delete_data_def Let_def
          table_ops_destroy_def split: prod.splits sum.splits)
qed

theorem bulk_delete_where_matching_witness:
  "gw_fetch_table demo_gateway ''S1'' 0 = (Inr snap_S1, 0) \<and>
   collect_row_ids snap_S1 [(''x'', PInt 20), (''y'', PStr ''b'')] 0 (id_column snap_S1) = [PInt 2] \<and>
   bulk_delete_where demo_gateway ''S1'' [(''x'', PInt 20), (''y'', PStr ''b'')] (0, []) =
     (True, 0, [Fetch ''S1'', Destroy ''S1'' [PInt 2]]) \<and>
   bulk_delete_where demo_gateway ''S1'' [(''x'', PInt 20), (''y'', PStr ''a'')] (0, []) =
     (True, 0, [Fetch ''S1''])"
  using bulk_delete_where_matching
      [of demo_gateway "''S1''" 0 snap_S1 0 "[(''x'', PInt 20), (''y'', PStr ''b'')]" "[]"]
    bulk_delete_where_matching
      [of demo_gateway "''S1''" 0 snap_S1 0 "[(''x'', PInt 20), (''y'', PStr ''a'')]" "[]"]
  by (simp add: demo_gateway_def demo_tables_def snap_S1_def id_column_def py_ne_def)

text \<open>
  C2 as stated fails: the snapshot of \<open>S2\<close> holds the boolean \<open>True\<close> in column \<open>z\<close>, the
  predicate asks for the integer \<open>1\<close>; the value is not exactly the predicate value, yet
  the row matches and its identifier is destroyed.
\<close>

theorem bulk_delete_where_exact_equality_counterexample:
  "gw_fetch_table demo_gateway ''S2'' 0 = (Inr snap_S2, 0) \<and>
   row_matches snap_S2 [(''z'', PInt 1)] 0 \<and>
   \<not> row_matches_exactly snap_S2 [(''z'', PInt 1)] 0 \<and>
   bulk_delete_where demo_gateway ''S2'' [(''z'', PInt 1)] (0, []) =
     (True, 0, [Fetch ''S2'', Destroy ''S2'' [PInt 1]])"
  by (simp add: demo_gateway_def demo_tables_def snap_S2_def id_column_def py_ne_def
        row_matches_exactly_def bulk_delete_where_def grist_fetch_table_def delete_data_def
        table_ops_destroy_def)

text \<open>
  C9: with an empty predicate every row of a fetched snapshot matches, so when the \<open>id\<close>
  column is not empty the operation sends one \<open>destroy\<close> carrying every identifier of
  that column, in order, and returns whether that call succeeded.
\<close>

theorem bulk_delete_where_empty_predicate:
  assumes "gw_fetch_table g t s = (Inr table_data, s1)"
      and "id_column table_data \<noteq> []"
  shows "collect_row_ids table_data [] 0 (id_column table_data) = id_column table_data \<and>
         bulk_delete_where g t [] (s, tr) =
           (\<not> isl (fst (gw_destroy g t (id_column table_data) s1)),
            snd (gw_destroy g t (id_column table_data) s1),
            tr @ [Fetch t, Destroy t (id_column table_data)])"
  using assms
  by (auto simp: collect_row_ids_no_predicate bulk_delete_where_def grist_fetch_table_def
        delete_data_def Let_def table_ops_destroy_def split: prod.splits sum.splits)

theorem bulk_delete_where_empty_predicate_witness:
  "gw_fetch_table demo_gateway ''S1'' 0 = (Inr snap_S1, 0) \<and>
   id_column snap_S1 = [PInt 1, PInt 2] \<and>
   bulk_delete_where demo_gateway ''S1'' [] (0, []) =
     (True, 0, [Fetch ''S1'', Destroy ''S1'' [PInt 1, PInt 2]])"
  using bulk_delete_where_empty_predicate [of demo_gateway "''S1''" 0 snap_S1 0 "[]"]
  by (simp add: demo_gateway_def demo_tables_def snap_S1_def id_column_def)

section \<open>Properties of table merge\<close>

lemma copy_sources_trace:
  assumes "\<forall>src \<in> set srcs. \<forall>s. gw_fetch_table g src s = (Inr (tabs src), s)"
  shows "\<exists>s'. copy_sources g tgt srcs (s, tr) =
           (Inr (), s',
            tr @ concat (map (\<lambda>src. Fetch src #
                                (if snapshot_records (tabs src) = [] then []
                                 else [Create tgt (snapshot_records (tabs src))])) srcs))"
  using assms
proof (induction srcs arbitrary: s tr)
  case Nil
  then show ?case by simp
next
  case (Cons src rest)
  from Cons.prems have rest: "\<forall>src \<in> set rest. \<forall>s. gw_fetch_table g src s = (Inr (tabs src), s)"
    and fetch: "gw_fetch_table g src s = (Inr (tabs src), s)" by simp_all
  show ?case
  proof (cases "snapshot_records (tabs src) = []")
    case True
    from Cons.IH [OF rest, of s "tr @ [Fetch src]"] True fetch
    show ?thesis by (simp add: grist_fetch_table_def)
  next
    case False
    from Cons.IH [OF rest, of "snd (gw_create g tgt (snapshot_records (tabs src)) s)"
        "tr @ [Fetch src, Create tgt (snapshot_records (tabs src))]"] False fetch
    show ?thesis by (simp add: grist_fetch_table_def add_data_world)
  qed
qed

lemma row_record_wf:
  assumes "snapshot_wf src_data" and "i < length (id_column src_data)"
  shows "row_record src_data i =
           map (\<lambda>(col, vs). (col, Val (vs ! i))) (filter (\<lambda>(col, vs). \<not> system_col col) src_data)"
proof -
  have "filter (\<lambda>(col, vs). \<not> system_col col \<and> i < length vs) src_data =
        filter (\<lambda>(col, vs). \<not> system_col col) src_data"
    using assms by (intro filter_cong) (auto simp: snapshot_wf_def list_all_iff)
  then show ?thesis by (simp add: row_record_def)
qed

text \<open>
  C4: let the target be omitted and every remaining source be readable, with snapshots
  whose columns have equal length. Then \<open>merge_tables\<close> returns \<open>True\<close> with the first
  source as target and the copy loop running over the remaining sources only. Its
  requests are: when \<open>create_new\<close> is set and a source remains, the fetch of the first
  remaining source and the requests of \<open>create_table\<close> on the target (the throwaway
  record and its removal); then, for each remaining source in order, its fetch and, when
  it has rows, one \<open>create\<close> of its records on the target. No other table is written, no
  row is updated, and the only identifier destroyed is the one the Gateway returned for
  the throwaway record. The record of row \<open>i\<close> of a source holds exactly the non-system
  columns of that source's snapshot, each with its value at \<open>i\<close>.
\<close>

theorem merge_tables_first_source_is_target:
  assumes "\<not> target_given target"
      and "\<forall>src \<in> set rest. \<forall>s. gw_fetch_table g src s = (Inr (tabs src), s)"
      and "\<forall>src \<in> set rest. snapshot_wf (tabs src)"
  shows "\<exists>s' evs.
           merge_tables g (first # rest) target create_new (s, tr) = (True, s', tr @ evs) \<and>
           evs = (if create_new \<and> rest \<noteq> []
                  then Fetch (hd rest) #
                       snd (snd (create_table g first (infer_columns (tabs (hd rest))) (s, [])))
                  else [])
                 @ concat (map (\<lambda>src. Fetch src #
                                 (if snapshot_records (tabs src) = [] then []
                                  else [Create first (snapshot_records (tabs src))])) rest) \<and>
           (\<forall>e \<in> set evs.
              (\<exists>src \<in> set rest. e = Fetch src) \<or> (\<exists>rs. e = Create first rs) \<or>
              (\<exists>ids s1. gw_create g first [dummy_record (infer_columns (tabs (hd rest)))] s
                           = (Inr ids, s1) \<and> ids \<noteq> [] \<and> e = Destroy first [hd ids])) \<and>
           (\<forall>src \<in> set rest. \<forall>i < length (id_column (tabs src)).
              snapshot_records (tabs src) ! i =
                map (\<lambda>(col, vs). (col, Val (vs ! i)))
                  (filter (\<lambda>(col, vs). \<not> system_col col) (tabs src)))"
proof -
  let ?copy = "concat (map (\<lambda>src. Fetch src #
                                 (if snapshot_records (tabs src) = [] then []
                                  else [Create first (snapshot_records (tabs src))])) rest)"
  let ?ct = "create_table g first (infer_columns (tabs (hd rest))) (s, [])"
  let ?pre = "if create_new \<and> rest \<noteq> [] then Fetch (hd rest) # snd (snd ?ct) else []"
  have run: "\<exists>s'. merge_tables g (first # rest) target create_new (s, tr) =
                 (True, s', tr @ ?pre @ ?copy)"
  proof (cases "create_new \<and> rest \<noteq> []")
    case True
    then have "hd rest \<in> set rest" by simp
    with assms(2) have fetch: "gw_fetch_table g (hd rest) s = (Inr (tabs (hd rest)), s)" by blast
    from copy_sources_trace [OF assms(2), of first "fst (snd ?ct)"
        "tr @ Fetch (hd rest) # snd (snd ?ct)"]
    obtain s' where "copy_sources g first rest (fst (snd ?ct), tr @ Fetch (hd rest) # snd (snd ?ct)) =
                       (Inr (), s', (tr @ Fetch (hd rest) # snd (snd ?ct)) @ ?copy)"
      by blast
    then show ?thesis
      using True assms(1) fetch
        create_table_trace_append [of g first "infer_columns (tabs (hd rest))" s "tr @ [Fetch (hd rest)]"]
      by (simp add: merge_tables_def grist_fetch_table_def)
  next
    case False
    from copy_sources_trace [OF assms(2), of first s tr]
    obtain s' where "copy_sources g first rest (s, tr) = (Inr (), s', tr @ ?copy)" by blast
    then show ?thesis
      using False assms(1) by (auto simp: merge_tables_def)
  qed
  have kinds: "\<forall>e \<in> set (?pre @ ?copy).
              (\<exists>src \<in> set rest. e = Fetch src) \<or> (\<exists>rs. e = Create first rs) \<or>
              (\<exists>ids s1. gw_create g first [dummy_record (infer_columns (tabs (hd rest)))] s
                           = (Inr ids, s1) \<and> ids \<noteq> [] \<and> e = Destroy first [hd ids])"
  proof
    fix e assume "e \<in> set (?pre @ ?copy)"
    then consider "e \<in> set ?pre" | "e \<in> set ?copy" by auto
    then show "(\<exists>src \<in> set rest. e = Fetch src) \<or> (\<exists>rs. e = Create first rs) \<or>
              (\<exists>ids s1. gw_create g first [dummy_record (infer_columns (tabs (hd rest)))] s
                           = (Inr ids, s1) \<and> ids \<noteq> [] \<and> e = Destroy first [hd ids])"
    proof cases
      case 1
      then have cn: "create_new \<and> rest \<noteq> []" by (auto split: if_splits)
      with 1 have "e = Fetch (hd rest) \<or> e \<in> set (snd (snd ?ct))" by auto
      then show ?thesis
      proof
        assume "e = Fetch (hd rest)"
        with cn show ?thesis by auto
      next
        assume "e \<in> set (snd (snd ?ct))"
        from create_table_events [OF this] show ?thesis by blast
      qed
    next
      case 2
      then show ?thesis by (auto split: if_splits)
    qed
  qed
  have shape: "\<forall>src \<in> set rest. \<forall>i < length (id_column (tabs src)).
              snapshot_records (tabs src) ! i =
                map (\<lambda>(col, vs). (col, Val (vs ! i)))
                  (filter (\<lambda>(col, vs). \<not> system_col col) (tabs src))"
    using assms(3) by (simp add: snapshot_records_def row_record_wf)
  from run kinds shape show ?thesis by blast
qed

theorem merge_tables_first_source_is_target_witness:
  "\<not> target_given None \<and> snapshot_wf snap_S2 \<and>
   gw_fetch_table demo_gateway ''S2'' 100 = (Inr snap_S2, 100) \<and>
   merge_tables demo_gateway [''S1'', ''S2''] None True (100, []) =
     (True, 102,
      [Fetch ''S2'',
       Create ''S1'' [[(''x'', Val (PInt 0)), (''z'', Val (PInt 0))]],
       Destroy ''S1'' [PInt 100],
       Fetch ''S2'',
       Create ''S1'' [[(''x'', Val (PInt 30)), (''z'', Val (PBool True))]]])"
proof -
  let ?tabs = "\<lambda>t::string. snap_S2"
  have tg: "\<not> target_given None" by (simp add: target_given_def)
  have reads: "\<forall>src \<in> set [''S2'']. \<forall>s. gw_fetch_table demo_gateway src s = (Inr (?tabs src), s)"
    by (simp add: demo_gateway_def demo_tables_def)
  have wf: "\<forall>src \<in> set [''S2'']. snapshot_wf (?tabs src)"
    by (simp add: snapshot_wf_def snap_S2_def id_column_def)
  have recs: "snapshot_records snap_S2 = [[(''x'', Val (PInt 30)), (''z'', Val (PBool True))]]"
    by (simp add: snapshot_records_def row_record_def snap_S2_def id_column_def system_col_def)
  have cols: "infer_columns snap_S2 = [(''x'', ''Numeric''), (''z'', ''Bool'')]"
    by (simp add: infer_columns_def infer_col_type_def sample_value_def type_map_get_def
          merge_type_map_def snap_S2_def system_col_def)
  have ct: "create_table demo_gateway ''S1'' [(''x'', ''Numeric''), (''z'', ''Bool'')] (100, []) =
              (True, 101, [Create ''S1'' [[(''x'', Val (PInt 0)), (''z'', Val (PInt 0))]],
                           Destroy ''S1'' [PInt 100]])"
    by (simp add: create_table_def table_ops_create_def table_ops_destroy_def dummy_record_def
          demo_gateway_def)
  from merge_tables_first_source_is_target [OF tg reads wf, of "''S1''" True 100 "[]"]
  obtain s' where run: "merge_tables demo_gateway [''S1'', ''S2''] None True (100, []) =
     (True, s',
      [Fetch ''S2'',
       Create ''S1'' [[(''x'', Val (PInt 0)), (''z'', Val (PInt 0))]],
       Destroy ''S1'' [PInt 100],
       Fetch ''S2'',
       Create ''S1'' [[(''x'', Val (PInt 30)), (''z'', Val (PBool True))]]])"
    by (auto simp: recs cols ct)
  have "fst (snd (merge_tables demo_gateway [''S1'', ''S2''] None True (100, []))) = 102"
    by (simp add: merge_tables_def target_given_def grist_fetch_table_def demo_gateway_def
          demo_tables_def cols recs create_table_def table_ops_create_def table_ops_destroy_def
          dummy_record_def add_data_def Let_def)
  with run have "s' = 102" by simp
  with run tg wf reads show ?thesis by simp
qed

lemma common_columns_some:
  assumes "\<forall>src \<in> set srcs. \<forall>s. gw_fetch_table g src s = (Inr (tabs src), s)"
  shows "\<exists>c. common_columns g srcs (Some c0) (s, tr) = (Inr (Some c), s, tr @ map Fetch srcs) \<and>
             set c = set c0 \<inter> (\<Inter>src \<in> set srcs. set (user_columns (tabs src)))"
  using assms
proof (induction srcs arbitrary: c0 tr)
  case Nil
  then show ?case by simp
next
  case (Cons src rest)
  let ?c1 = "filter (\<lambda>col. col \<in> set (user_columns (tabs src))) c0"
  from Cons.prems have rest: "\<forall>src \<in> set rest. \<forall>s. gw_fetch_table g src s = (Inr (tabs src), s)"
    by simp
  from Cons.IH [OF rest, of ?c1 "tr @ [Fetch src]"]
  obtain c where c: "common_columns g rest (Some ?c1) (s, tr @ [Fetch src]) =
                       (Inr (Some c), s, (tr @ [Fetch src]) @ map Fetch rest)"
    and sc: "set c = set ?c1 \<inter> (\<Inter>src \<in> set rest. set (user_columns (tabs src)))"
    by blast
  from Cons.prems have fetch: "gw_fetch_table g src s = (Inr (tabs src), s)" by simp
  have "common_columns g (src # rest) (Some c0) (s, tr) =
          (Inr (Some c), s, tr @ map Fetch (src # rest))"
    using c fetch by (simp add: grist_fetch_table_def)
  moreover have "set c = set c0 \<inter> (\<Inter>src \<in> set (src # rest). set (user_columns (tabs src)))"
    using sc by auto
  ultimately show ?case by blast
qed

lemma common_columns_none:
  assumes "\<forall>src \<in> set sources. \<forall>s. gw_fetch_table g src s = (Inr (tabs src), s)"
      and "sources \<noteq> []"
  shows "\<exists>c. common_columns g sources None (s, tr) = (Inr (Some c), s, tr @ map Fetch sources) \<and>
             set c = (\<Inter>src \<in> set sources. set (user_columns (tabs src)))"
proof -
  from assms(2) obtain src rest where sources: "sources = src # rest" by (cases sources) auto
  from assms(1) sources
  have rest: "\<forall>src \<in> set rest. \<forall>s. gw_fetch_table g src s = (Inr (tabs src), s)"
    and fetch: "gw_fetch_table g src s = (Inr (tabs src), s)" by simp_all
  from common_columns_some [OF rest, of "user_columns (tabs src)" s "tr @ [Fetch src]"]
  obtain c where c: "common_columns g rest (Some (user_columns (tabs src))) (s, tr @ [Fetch src]) =
                       (Inr (Some c), s, (tr @ [Fetch src]) @ map Fetch rest)"
    and sc: "set c = set (user_columns (tabs src)) \<inter> (\<Inter>src \<in> set rest. set (user_columns (tabs src)))"
    by blast
  have "common_columns g sources None (s, tr) = (Inr (Some c), s, tr @ map Fetch sources)"
    using c fetch sources by (simp add: grist_fetch_table_def)
  moreover have "set c = (\<Inter>src \<in> set sources. set (user_columns (tabs src)))"
    using sc sources by auto
  ultimately show ?thesis by blast
qed

text \<open>
  C3: let every source be readable, \<open>fetch_table\<close> returning its snapshot and leaving the
  Gateway as it is. When the non-system column sets of the sources have an empty
  intersection, \<open>merge_tables_strict\<close> returns \<open>False\<close>; the Gateway's state is unchanged
  and the only requests sent are the fetches of the sources, none of them a write.
\<close>

theorem merge_tables_strict_no_common_columns:
  assumes "\<forall>src \<in> set sources. \<forall>s. gw_fetch_table g src s = (Inr (tabs src), s)"
      and "(\<Inter>src \<in> set sources. set (user_columns (tabs src))) = {}"
  shows "merge_tables_strict g sources target create_new (s, tr) =
           (False, s, tr @ map Fetch sources) \<and>
         list_all (\<lambda>e. \<not> is_write e) (map Fetch sources)"
proof -
  have ne: "sources \<noteq> []" using assms(2) by auto
  from common_columns_none [OF assms(1) ne, of s tr] assms(2)
  have "common_columns g sources None (s, tr) = (Inr (Some []), s, tr @ map Fetch sources)"
    by auto
  then have "merge_tables_strict g sources target create_new (s, tr) =
           (False, s, tr @ map Fetch sources)"
    using ne by (simp add: merge_tables_strict_def Let_def)
  moreover have "list_all (\<lambda>e. \<not> is_write e) (map Fetch sources)"
    by (simp add: list_all_iff is_write_def)
  ultimately show ?thesis by simp
qed

theorem merge_tables_strict_no_common_columns_witness:
  "user_columns snap_Y = [''y''] \<and> user_columns snap_Z = [''z''] \<and>
   merge_tables_strict demo_gateway [''Y'', ''Z''] None True (0, []) =
     (False, 0, [Fetch ''Y'', Fetch ''Z''])"
proof -
  let ?tabs = "\<lambda>t. if t = ''Y'' then snap_Y else snap_Z"
  have reads: "\<forall>src \<in> set [''Y'', ''Z'']. \<forall>s.
                 gw_fetch_table demo_gateway src s = (Inr (?tabs src), s)"
    by (simp add: demo_gateway_def demo_tables_def)
  have y: "user_columns snap_Y = [''y'']"
    by (simp add: snap_Y_def user_columns_def system_col_def)
  have z: "user_columns snap_Z = [''z'']"
    by (simp add: snap_Z_def user_columns_def system_col_def)
  have disjoint: "(\<Inter>src \<in> set [''Y'', ''Z'']. set (user_columns (?tabs src))) = {}"
    by (simp add: y z)
  from merge_tables_strict_no_common_columns [OF reads disjoint, of None True 0 "[]"] y z
  show ?thesis by simp
qed

section \<open>Properties of attachment lookup\<close>

text \<open>
  C10: the result of \<open>get_attachment_url\<close>, and the request it sends, are the same for
  any two table names: the lookup depends on the row identifier and the column name only.
\<close>

theorem get_attachment_url_ignores_table_name:
  "get_attachment_url g table_name1 column_name row_id w =
   get_attachment_url g table_name2 column_name row_id w"
  by (simp add: get_attachment_url_def)

theorem get_attachment_url_ignores_table_name_witness:
  "get_attachment_url demo_gateway ''S1'' ''File'' (PInt 1) (0, []) =
     (PStr ''http://f/1'', 0, [FetchSelected (PInt 1)]) \<and>
   get_attachment_url demo_gateway ''Other'' ''File'' (PInt 1) (0, []) =
     (PStr ''http://f/1'', 0, [FetchSelected (PInt 1)])"
  using get_attachment_url_ignores_table_name
    [of demo_gateway "''S1''" "''File''" "PInt 1" "(0, [])" "''Other''"]
  by (simp add: get_attachment_url_def grist_fetch_selected_record_def demo_gateway_def)

end
